theory Spec2Isabelle
  imports Complex_Main
begin

section \<open>Isotope distributions of alphapept (chem.py)\<close>

text \<open>
  The module computes isotope patterns by convolving intensity arrays. The embedding
  follows the Python text function by function, with the semantics of the compiled code:
  every function is decorated with \<open>@njit\<close> and the class with \<open>@jitclass\<close>, so array
  reads are not bounds checked, integers have a fixed width, and a division of arrays
  by zero yields non-finite entries without raising.

  Numbers. An intensity is a \<open>float64\<close>, modelled as a real or one of the three special
  values; on reals the arithmetic is exact, rounding, overflow and underflow are not
  modelled. An offset (\<open>m0\<close>, a \<open>float32\<close>), a mass and the threshold are reals: the
  module makes them from finite numbers by sums, products and quotients by non-zero
  numbers only. The peak count \<open>dm\<close> is an \<open>int32\<close> field and is wrapped when it is
  stored; index arithmetic inside \<open>fast_add\<close> is done at 64 bits and is unbounded here.

  Errors. An exception the compiled code raises is a constructor of \<open>error\<close>. A
  function that can raise returns \<open>error + 'a\<close>; one that may also fail to return
  (the pruning loop can walk out of the process's memory) returns
  \<open>(error + 'a) option\<close>, \<open>None\<close> standing for no return.
\<close>

subsection \<open>Data model\<close>

datatype error = ValueError | KeyError | ZeroDivisionError | NotImplementedError

datatype float64 = Finite real | NaN | PosInf | NegInf

record IsotopeDistribution =
  m0 :: real
  dm :: int
  intensities :: "float64 list"

text \<open>\<open>IsotopeDistribution.__init__\<close>: offset 0, one peak, intensities \<open>[1.0]\<close>.\<close>

definition IsotopeDistribution_init :: IsotopeDistribution where
  "IsotopeDistribution_init = \<lparr>m0 = 0, dm = 1, intensities = [Finite 1]\<rparr>"

subsection \<open>Arithmetic of \<open>float64\<close>\<close>

text \<open>
  The IEEE rules for the special values. Zero carries no sign here. The sign of a zero
  shows only in a quotient by it, and the only divisor in the module is the maximum of
  \<open>ni\<close>, whose entries are sums started at \<open>+0.0\<close>: such a sum is never \<open>-0.0\<close>, so a
  zero divisor is \<open>+0.0\<close>.
\<close>

fun fmul :: "float64 \<Rightarrow> float64 \<Rightarrow> float64" where
  "fmul NaN y = NaN"
| "fmul x NaN = NaN"
| "fmul (Finite a) (Finite b) = Finite (a * b)"
| "fmul (Finite a) PosInf = (if a = 0 then NaN else if 0 < a then PosInf else NegInf)"
| "fmul (Finite a) NegInf = (if a = 0 then NaN else if 0 < a then NegInf else PosInf)"
| "fmul PosInf (Finite b) = (if b = 0 then NaN else if 0 < b then PosInf else NegInf)"
| "fmul NegInf (Finite b) = (if b = 0 then NaN else if 0 < b then NegInf else PosInf)"
| "fmul PosInf PosInf = PosInf"
| "fmul PosInf NegInf = NegInf"
| "fmul NegInf PosInf = NegInf"
| "fmul NegInf NegInf = PosInf"

fun fadd :: "float64 \<Rightarrow> float64 \<Rightarrow> float64" where
  "fadd NaN y = NaN"
| "fadd x NaN = NaN"
| "fadd (Finite a) (Finite b) = Finite (a + b)"
| "fadd (Finite a) PosInf = PosInf"
| "fadd (Finite a) NegInf = NegInf"
| "fadd PosInf (Finite b) = PosInf"
| "fadd NegInf (Finite b) = NegInf"
| "fadd PosInf PosInf = PosInf"
| "fadd PosInf NegInf = NaN"
| "fadd NegInf PosInf = NaN"
| "fadd NegInf NegInf = NegInf"

fun fdiv :: "float64 \<Rightarrow> float64 \<Rightarrow> float64" where
  "fdiv NaN y = NaN"
| "fdiv x NaN = NaN"
| "fdiv (Finite a) (Finite b) =
     (if b \<noteq> 0 then Finite (a / b)
      else if a = 0 then NaN else if 0 < a then PosInf else NegInf)"
| "fdiv (Finite a) PosInf = Finite 0"
| "fdiv (Finite a) NegInf = Finite 0"
| "fdiv PosInf (Finite b) = (if 0 \<le> b then PosInf else NegInf)"
| "fdiv NegInf (Finite b) = (if 0 \<le> b then NegInf else PosInf)"
| "fdiv PosInf PosInf = NaN"
| "fdiv PosInf NegInf = NaN"
| "fdiv NegInf PosInf = NaN"
| "fdiv NegInf NegInf = NaN"

text \<open>\<open>x > y\<close> on floats: false when either side is \<open>nan\<close>.\<close>

fun fgt :: "float64 \<Rightarrow> float64 \<Rightarrow> bool" where
  "fgt NaN y = False"
| "fgt x NaN = False"
| "fgt (Finite a) (Finite b) = (b < a)"
| "fgt (Finite a) PosInf = False"
| "fgt (Finite a) NegInf = True"
| "fgt PosInf PosInf = False"
| "fgt PosInf y = True"
| "fgt NegInf y = False"

text \<open>\<open>x < p\<close> for a float \<open>x\<close> and a finite threshold \<open>p\<close>.\<close>

fun flt :: "float64 \<Rightarrow> real \<Rightarrow> bool" where
  "flt (Finite a) p = (a < p)"
| "flt NaN p = False"
| "flt PosInf p = False"
| "flt NegInf p = True"

subsection \<open>Arrays\<close>

text \<open>
  An array is the list of its entries. The compiled code does not check an index
  against the bounds: a read outside the array returns whatever the memory holds there.
  That content is not determined by the program and is a parameter of the model,
  \<open>mem a k\<close> being the float found at offset \<open>k\<close> of the array \<open>a\<close>, for \<open>k\<close> outside
  \<open>[0, len(a))\<close>. A statement with a free \<open>mem\<close> holds whatever the memory holds.
\<close>

type_synonym memory = "float64 list \<Rightarrow> int \<Rightarrow> float64"

text \<open>A memory that holds \<open>1.0\<close> wherever it is read, to evaluate concrete calls.\<close>

definition memory_of_ones :: memory where
  "memory_of_ones a k = Finite 1"

text \<open>
  \<open>a[k]\<close> for an integer \<open>k\<close>: a negative index has the length added to it once, and the
  entry at the resulting offset is read, inside the array or not.
\<close>

definition getitem :: "memory \<Rightarrow> float64 list \<Rightarrow> int \<Rightarrow> float64" where
  "getitem mem a k =
     (let n = int (length a); j = (if k < 0 then k + n else k) in
      if 0 \<le> j \<and> j < n then a ! nat j else mem a j)"

text \<open>\<open>range(n)\<close> for an integer \<open>n\<close>: empty when \<open>n \<le> 0\<close>.\<close>

definition py_range :: "int \<Rightarrow> nat list" where
  "py_range n = [0..<nat n]"

text \<open>\<open>np.zeros(n)\<close>: a negative dimension raises \<open>ValueError\<close>.\<close>

definition np_zeros :: "int \<Rightarrow> error + float64 list" where
  "np_zeros n = (if n < 0 then Inl ValueError else Inr (replicate (nat n) (Finite 0)))"

text \<open>
  \<open>np.max(a)\<close>: raises \<open>ValueError\<close> on an empty array; otherwise it scans the array,
  returns \<open>nan\<close> at the first \<open>nan\<close> and keeps the greater value else.
\<close>

fun max_loop :: "float64 \<Rightarrow> float64 list \<Rightarrow> float64" where
  "max_loop max_value [] = max_value"
| "max_loop max_value (v # vs) =
     (if v = NaN then NaN else max_loop (if fgt v max_value then v else max_value) vs)"

definition np_max :: "float64 list \<Rightarrow> error + float64" where
  "np_max a =
     (case a of
        [] \<Rightarrow> Inl ValueError
      | x # xs \<Rightarrow> Inr (if x = NaN then NaN else max_loop x xs))"

subsection \<open>\<open>fast_add\<close>\<close>

text \<open>
  The inner loop \<open>for j in range(dm1): ni[i + j] += int0[i] * int1[j]\<close>, for a fixed
  \<open>i\<close>; \<open>js\<close> is what remains of \<open>range(dm1)\<close>. The reads of \<open>int0\<close> and \<open>int1\<close> leave the
  array when the peak count exceeds the length. The index into \<open>ni\<close> is always inside
  (lemma \<open>convolve_index_in_range\<close>), so the write is a list update.
\<close>

fun conv_inner ::
  "memory \<Rightarrow> float64 list \<Rightarrow> float64 list \<Rightarrow> nat \<Rightarrow> nat list \<Rightarrow> float64 list \<Rightarrow> float64 list" where
  "conv_inner mem int0 int1 i [] ni = ni"
| "conv_inner mem int0 int1 i (j # js) ni =
     conv_inner mem int0 int1 i js
       (ni[i + j := fadd (getitem mem ni (int (i + j)))
                         (fmul (getitem mem int0 (int i)) (getitem mem int1 (int j)))])"

text \<open>The outer loop \<open>for i in range(dm0)\<close>; \<open>is\<close> is what remains of \<open>range(dm0)\<close>.\<close>

fun conv_outer ::
  "memory \<Rightarrow> float64 list \<Rightarrow> float64 list \<Rightarrow> nat list \<Rightarrow> nat list \<Rightarrow> float64 list \<Rightarrow> float64 list" where
  "conv_outer mem int0 int1 [] js ni = ni"
| "conv_outer mem int0 int1 (i # is) js ni =
     conv_outer mem int0 int1 is js (conv_inner mem int0 int1 i js ni)"

text \<open>
  Lines 112 to 115: \<open>ni = np.zeros(dm0 + dm1 - 1)\<close> followed by the two loops; the
  result is the raw convolution \<open>ni\<close>.
\<close>

definition convolve :: "memory \<Rightarrow> int \<Rightarrow> float64 list \<Rightarrow> int \<Rightarrow> float64 list \<Rightarrow> error + float64 list" where
  "convolve mem dm0 int0 dm1 int1 =
     (case np_zeros (dm0 + dm1 - 1) of
        Inl e \<Rightarrow> Inl e
      | Inr z \<Rightarrow> Inr (conv_outer mem int0 int1 (py_range dm0) (py_range dm1) z))"

text \<open>
  Lines 121 and 122: \<open>while ni[dm0 - 1] < PRUNE_LEVEL: dm0 -= 1\<close>. The test reads the raw
  array \<open>ni\<close>. Nothing bounds \<open>dm0\<close> from below: at \<open>dm0 \<le> 0\<close> the index is negative and
  reads the array from its end, and below \<open>-len(ni)\<close> it reads the memory in front of
  the array, for as long as what it finds is below the threshold. The loop need not
  return.
\<close>

partial_function (option) prune_loop :: "memory \<Rightarrow> float64 list \<Rightarrow> int \<Rightarrow> real \<Rightarrow> int option" where
  "prune_loop mem ni dm0 PRUNE_LEVEL =
     (if flt (getitem mem ni (dm0 - 1)) PRUNE_LEVEL
      then prune_loop mem ni (dm0 - 1) PRUNE_LEVEL
      else Some dm0)"

declare prune_loop.simps [code]

text \<open>The default of the parameter \<open>PRUNE_LEVEL\<close>, \<open>0.000001\<close>.\<close>

definition PRUNE_LEVEL_default :: real where
  "PRUNE_LEVEL_default = 1 / 1000000"

text \<open>
  \<open>fast_add\<close>, lines 110 to 124. The division \<open>ni / np.max(ni)\<close> is elementwise and raises
  nothing. The parameter \<open>m0\<close> is written \<open>m_0\<close>, the name \<open>m0\<close> being the field of the
  record.
\<close>

definition fast_add ::
  "memory \<Rightarrow> real \<Rightarrow> int \<Rightarrow> float64 list \<Rightarrow> real \<Rightarrow> int \<Rightarrow> float64 list \<Rightarrow> real
     \<Rightarrow> (error + (real \<times> int \<times> float64 list)) option" where
  "fast_add mem m_0 dm0 int0 m1 dm1 int1 PRUNE_LEVEL =
     (case convolve mem dm0 int0 dm1 int1 of
        Inl e \<Rightarrow> Some (Inl e)
      | Inr ni \<Rightarrow>
          (case np_max ni of
             Inl e \<Rightarrow> Some (Inl e)
           | Inr mx \<Rightarrow>
               (case prune_loop mem ni (dm0 + (dm1 - 1)) PRUNE_LEVEL of
                  None \<Rightarrow> None
                | Some d \<Rightarrow> Some (Inr (m_0 + m1, d, map (\<lambda>v. fdiv v mx) ni)))))"

subsection \<open>The methods of \<open>IsotopeDistribution\<close>\<close>

text \<open>A 64 bit integer stored in the \<open>int32\<close> field \<open>dm\<close> keeps its low 32 bits.\<close>

definition int32_wrap :: "int \<Rightarrow> int" where
  "int32_wrap x = (x + 2147483648) mod 4294967296 - 2147483648"

text \<open>
  \<open>add\<close>: the three fields of \<open>self\<close> are rebound to the result of \<open>fast_add\<close>, called
  with the default threshold. The object is passed as a value and returned updated.
\<close>

definition add ::
  "memory \<Rightarrow> IsotopeDistribution \<Rightarrow> IsotopeDistribution \<Rightarrow> (error + IsotopeDistribution) option" where
  "add mem self x =
     (case fast_add mem (m0 self) (dm self) (intensities self) (m0 x) (dm x) (intensities x)
             PRUNE_LEVEL_default of
        None \<Rightarrow> None
      | Some (Inl e) \<Rightarrow> Some (Inl e)
      | Some (Inr (m, d, a)) \<Rightarrow>
          Some (Inr (self\<lparr>m0 := m, dm := int32_wrap d, intensities := a\<rparr>)))"

text \<open>
  \<open>copy\<close>, at the level of values: a new object whose three fields are assigned from
  \<open>self\<close>. What the assignment \<open>i.intensities = self.intensities\<close> does to storage is
  modelled in the subsection on references below.
\<close>

definition copy :: "IsotopeDistribution \<Rightarrow> IsotopeDistribution" where
  "copy self =
     IsotopeDistribution_init\<lparr>m0 := m0 self, dm := dm self, intensities := intensities self\<rparr>"

subsection \<open>\<open>numba_bin\<close> and \<open>mult\<close>\<close>

text \<open>The number of binary digits of a positive integer.\<close>

function bit_length :: "int \<Rightarrow> nat" where
  "bit_length n = (if n \<le> 0 then 0 else Suc (bit_length (n div 2)))"
  by pat_completeness auto
termination
  by (relation "measure nat") auto

declare bit_length.simps [simp del]

text \<open>
  The conversion of a 64 bit integer to \<open>float64\<close>, as the integer the float stands
  for: up to 53 binary digits it is exact; beyond, the digits after the 53rd are rounded
  off, to the nearest and in a tie to the even neighbour.
\<close>

definition float64_of_int :: "int \<Rightarrow> int" where
  "float64_of_int n =
     (let a = \<bar>n\<bar>; b = bit_length a in
      if b \<le> 53 then n
      else
        (let u = 2 ^ (b - 53); q = a div u; r = a mod u;
             q' = (if u < 2 * r \<or> (2 * r = u \<and> odd q) then q + 1 else q)
         in sgn n * (q' * u)))"

text \<open>
  \<open>int(decimal / 2)\<close>: \<open>decimal\<close> is converted to \<open>float64\<close>, halved (exactly), and the
  quotient truncated towards zero.
\<close>

definition int_half :: "int \<Rightarrow> int" where
  "int_half decimal =
     (let f = float64_of_int decimal in
      if 0 \<le> f then f div 2 else - ((- f) div 2))"

text \<open>
  The loop of \<open>numba_bin\<close>; \<open>binary.insert(0, bit)\<close> puts the bit in front. Python's
  \<open>decimal % 2\<close> is 0 or 1 for every integer, as \<open>mod\<close> is on \<open>int\<close>. The loop ends
  because halving, rounded or not, brings \<open>decimal\<close> closer to 0.
\<close>

function numba_bin_loop :: "int \<Rightarrow> int list \<Rightarrow> int list" where
  "numba_bin_loop decimal binary =
     (if decimal \<noteq> 0
      then numba_bin_loop (int_half decimal) ((decimal mod 2) # binary)
      else binary)"
  by pat_completeness auto
termination
proof (relation "measure (\<lambda>(decimal, binary). nat \<bar>decimal\<bar>)")
  show "wf (measure (\<lambda>(decimal, binary). nat \<bar>decimal\<bar>))"
    by simp
next
  fix decimal :: int and binary :: "int list"
  assume nz: "decimal \<noteq> 0"
  define a where "a = \<bar>decimal\<bar>"
  from nz have apos: "0 < a" by (simp add: a_def)
  have bl: "2 ^ bit_length k \<le> 2 * k" if "0 < k" for k :: int
    using that
  proof (induction k rule: bit_length.induct)
    case (1 k)
    from "1.prems" have unf: "bit_length k = Suc (bit_length (k div 2))"
      by (subst bit_length.simps) simp
    show ?case
    proof (cases "k div 2 \<le> 0")
      case True
      with "1.prems" have "k = 1" by linarith
      moreover have "bit_length 1 = 1"
        by (subst bit_length.simps, simp, subst bit_length.simps, simp)
      ultimately show ?thesis by simp
    next
      case False
      then have "0 < k div 2" by simp
      with "1.IH" "1.prems" have "2 ^ bit_length (k div 2) \<le> 2 * (k div 2)" by simp
      also have "\<dots> \<le> k" by simp
      finally have "2 * 2 ^ bit_length (k div 2) \<le> 2 * k" by simp
      with unf show ?thesis by simp
    qed
  qed
  have fa: "\<bar>float64_of_int decimal\<bar> < 2 * a"
  proof (cases "bit_length a \<le> 53")
    case True
    with apos show ?thesis
      by (simp add: float64_of_int_def Let_def a_def [symmetric])
  next
    case False
    define u :: int where "u = 2 ^ (bit_length a - 53)"
    define q' where "q' = (if u < 2 * (a mod u) \<or> (2 * (a mod u) = u \<and> odd (a div u))
                            then a div u + 1 else a div u)"
    have upos: "0 < u" by (simp add: u_def)
    from False have e: "bit_length a - 53 + 53 = bit_length a" by simp
    have "u * 2 ^ 53 = 2 ^ (bit_length a - 53 + 53)"
      unfolding u_def by (simp only: power_add)
    then have ueq: "u * 2 ^ 53 = 2 ^ bit_length a"
      by (simp only: e)
    have "u * 2 ^ 53 \<le> 2 * a"
      using bl [OF apos] by (simp only: ueq)
    with upos have u2: "2 * u \<le> a" by simp
    from apos have q0: "0 \<le> a div u" using upos by (simp add: pos_imp_zdiv_nonneg_iff)
    have "q' * u \<le> (a div u + 1) * u"
      using upos by (simp add: q'_def)
    also have "\<dots> = (a div u) * u + u" by (simp add: algebra_simps)
    also have "\<dots> \<le> a + u"
    proof -
      have "a div u * u + a mod u = a" by simp
      moreover from upos have "0 \<le> a mod u" by simp
      ultimately show ?thesis by linarith
    qed
    finally have "q' * u \<le> a + u" .
    with u2 upos have lt: "q' * u < 2 * a" by linarith
    from q0 have "0 \<le> q'" by (simp add: q'_def)
    with upos have nn: "0 \<le> q' * u" by simp
    have "\<bar>float64_of_int decimal\<bar> = \<bar>q' * u\<bar>"
      using False nz
      by (simp add: float64_of_int_def Let_def a_def [symmetric] u_def [symmetric]
          q'_def [symmetric] abs_mult abs_sgn_eq)
    with nn lt show ?thesis by simp
  qed
  have "\<bar>int_half decimal\<bar> = \<bar>float64_of_int decimal\<bar> div 2"
    by (simp add: int_half_def Let_def abs_if)
  with fa have "\<bar>int_half decimal\<bar> < a" by linarith
  then show "((int_half decimal, (decimal mod 2) # binary), (decimal, binary))
               \<in> measure (\<lambda>(decimal, binary). nat \<bar>decimal\<bar>)"
    by (simp add: a_def)
qed

definition numba_bin :: "int \<Rightarrow> int list" where
  "numba_bin decimal = numba_bin_loop decimal []"

text \<open>
  The loop of \<open>mult\<close> over \<open>binary[::-1]\<close>: the accumulator \<open>i\<close> is convolved with
  \<open>multiples\<close> when the bit is 1, and \<open>multiples\<close> is convolved with itself after every
  bit, the last one included.
\<close>

fun mult_loop ::
  "memory \<Rightarrow> IsotopeDistribution \<Rightarrow> IsotopeDistribution \<Rightarrow> int list
     \<Rightarrow> (error + IsotopeDistribution) option" where
  "mult_loop mem i multiples [] = Some (Inr i)"
| "mult_loop mem i multiples (count # rest) =
     (case (if count = 1 then add mem i multiples else Some (Inr i)) of
        None \<Rightarrow> None
      | Some (Inl e) \<Rightarrow> Some (Inl e)
      | Some (Inr i') \<Rightarrow>
          (case add mem multiples multiples of
             None \<Rightarrow> None
           | Some (Inl e) \<Rightarrow> Some (Inl e)
           | Some (Inr multiples') \<Rightarrow> mult_loop mem i' multiples' rest))"

definition mult :: "memory \<Rightarrow> IsotopeDistribution \<Rightarrow> int \<Rightarrow> (error + IsotopeDistribution) option" where
  "mult mem self n =
     (let binary = numba_bin n in
      if n = 1 then Some (Inr (copy self))
      else mult_loop mem IsotopeDistribution_init (copy self) (rev binary))"

subsection \<open>\<open>dict_to_dist\<close>\<close>

text \<open>
  A dictionary that is iterated is an association list in insertion order
  (\<open>counted_AA\<close>, \<open>averagine_aa\<close>); one that is only looked up is a map (\<open>isotopes\<close>). A
  missing key raises \<open>KeyError\<close>. The variable \<open>dist\<close> of the source is written
  \<open>distr\<close>, \<open>dist\<close> being the distance of a metric space in HOL.
\<close>

fun dict_to_dist_loop ::
  "memory \<Rightarrow> (string \<rightharpoonup> IsotopeDistribution) \<Rightarrow> IsotopeDistribution \<Rightarrow> (string \<times> int) list
     \<Rightarrow> (error + IsotopeDistribution) option" where
  "dict_to_dist_loop mem isotopes distr [] = Some (Inr distr)"
| "dict_to_dist_loop mem isotopes distr ((AA, n) # rest) =
     (case isotopes AA of
        None \<Rightarrow> Some (Inl KeyError)
      | Some el \<Rightarrow>
          (case add mem IsotopeDistribution_init el of
             None \<Rightarrow> None
           | Some (Inl e) \<Rightarrow> Some (Inl e)
           | Some (Inr x) \<Rightarrow>
               (case mult mem x n of
                  None \<Rightarrow> None
                | Some (Inl e) \<Rightarrow> Some (Inl e)
                | Some (Inr x') \<Rightarrow>
                    (case add mem distr x' of
                       None \<Rightarrow> None
                     | Some (Inl e) \<Rightarrow> Some (Inl e)
                     | Some (Inr distr') \<Rightarrow> dict_to_dist_loop mem isotopes distr' rest))))"

definition dict_to_dist ::
  "memory \<Rightarrow> (string \<times> int) list \<Rightarrow> (string \<rightharpoonup> IsotopeDistribution)
     \<Rightarrow> (error + IsotopeDistribution) option" where
  "dict_to_dist mem counted_AA isotopes =
     dict_to_dist_loop mem isotopes IsotopeDistribution_init counted_AA"

subsection \<open>\<open>get_average_formula\<close>\<close>

text \<open>\<open>np.round\<close>: to the nearest integer, a tie to the even one.\<close>

definition np_round :: "real \<Rightarrow> int" where
  "np_round v =
     (let f = \<lfloor>v\<rfloor>; d = v - of_int f in
      if d < 1 / 2 then f
      else if 1 / 2 < d then f + 1
      else if even f then f else f + 1)"

text \<open>Division of two scalars: a zero divisor raises \<open>ZeroDivisionError\<close>.\<close>

definition py_div :: "real \<Rightarrow> real \<Rightarrow> error + real" where
  "py_div a b = (if b = 0 then Inl ZeroDivisionError else Inr (a / b))"

text \<open>\<open>d[k] = v\<close> on a dictionary in insertion order: an existing key keeps its place.\<close>

fun dict_set :: "'k \<Rightarrow> 'v \<Rightarrow> ('k \<times> 'v) list \<Rightarrow> ('k \<times> 'v) list" where
  "dict_set k v [] = [(k, v)]"
| "dict_set k v ((k', v') # rest) =
     (if k = k' then (k, v) # rest else (k', v') # dict_set k v rest)"

text \<open>
  The loop over \<open>averagine_aa.keys()\<close>, lines 193 to 195, with the state \<open>counted_AA\<close>
  and \<open>final_mass\<close>.
\<close>

fun averagine_loop ::
  "real \<Rightarrow> (string \<rightharpoonup> IsotopeDistribution) \<Rightarrow> (string \<times> real) list
     \<Rightarrow> (string \<times> int) list \<Rightarrow> real \<Rightarrow> error + ((string \<times> int) list \<times> real)" where
  "averagine_loop averagine_units isotopes [] counted_AA final_mass =
     Inr (counted_AA, final_mass)"
| "averagine_loop averagine_units isotopes ((AA, ratio) # rest) counted_AA final_mass =
     (let c = np_round (averagine_units * ratio);
          counted_AA' = dict_set AA c counted_AA in
      case isotopes AA of
        None \<Rightarrow> Inl KeyError
      | Some el \<Rightarrow>
          averagine_loop averagine_units isotopes rest counted_AA'
            (final_mass + of_int c * m0 el))"

text \<open>
  \<open>get_average_formula\<close>. The module constant \<open>averagine_avg\<close> is imported from a file
  that is not part of the source at hand and is a parameter here, the first one.
\<close>

definition get_average_formula ::
  "real \<Rightarrow> real \<Rightarrow> (string \<times> real) list \<Rightarrow> (string \<rightharpoonup> IsotopeDistribution) \<Rightarrow> bool
     \<Rightarrow> error + (string \<times> int) list" where
  "get_average_formula averagine_avg molecule_mass averagine_aa isotopes sulphur =
     (if sulphur then
        (case py_div molecule_mass averagine_avg of
           Inl e \<Rightarrow> Inl e
         | Inr averagine_units \<Rightarrow>
             (case averagine_loop averagine_units isotopes averagine_aa [] 0 of
                Inl e \<Rightarrow> Inl e
              | Inr (counted_AA, final_mass) \<Rightarrow>
                  (case isotopes ''H'' of
                     None \<Rightarrow> Inl KeyError
                   | Some h \<Rightarrow>
                       (case py_div (molecule_mass - final_mass) (m0 h) of
                          Inl e \<Rightarrow> Inl e
                        | Inr q \<Rightarrow>
                            (let h_correction = np_round q in
                             case map_of counted_AA ''H'' of
                               None \<Rightarrow> Inl KeyError
                             | Some c \<Rightarrow>
                                 Inr (dict_set ''H'' (c + h_correction) counted_AA))))))
      else Inl NotImplementedError)"

subsection \<open>\<open>mass_to_dist\<close> and \<open>calculate_mass\<close>\<close>

definition mass_to_dist ::
  "memory \<Rightarrow> real \<Rightarrow> real \<Rightarrow> (string \<times> real) list \<Rightarrow> (string \<rightharpoonup> IsotopeDistribution)
     \<Rightarrow> (error + (real list \<times> float64 list)) option" where
  "mass_to_dist mem averagine_avg molecule_mass averagine_aa isotopes =
     (case get_average_formula averagine_avg molecule_mass averagine_aa isotopes True of
        Inl e \<Rightarrow> Some (Inl e)
      | Inr counted_AA \<Rightarrow>
          (case dict_to_dist mem counted_AA isotopes of
             None \<Rightarrow> None
           | Some (Inl e) \<Rightarrow> Some (Inl e)
           | Some (Inr distr) \<Rightarrow>
               (let masses = map (\<lambda>i. m0 distr + real i) [0..<length (intensities distr)];
                    ints = intensities distr
                in Some (Inr (masses, ints)))))"



subsection \<open>References: the storage behind \<open>copy\<close> and \<open>add\<close>\<close>

text \<open>
  A field \<open>intensities\<close> holds a reference to an array. To say what two objects share,
  arrays live in a store, a list indexed by address, and an object holds the address of
  its array. Allocation appends to the store.
\<close>

type_synonym heap = "float64 list list"

record IsotopeDistribution_ref =
  ref_m0 :: real
  ref_dm :: int
  ref_intensities :: nat

definition new_array :: "float64 list \<Rightarrow> heap \<Rightarrow> nat \<times> heap" where
  "new_array a h = (length h, h @ [a])"

text \<open>\<open>__init__\<close>: \<open>np.array([1.0])\<close> allocates.\<close>

definition ref_init :: "heap \<Rightarrow> IsotopeDistribution_ref \<times> heap" where
  "ref_init h =
     (case new_array [Finite 1] h of
        (r, h') \<Rightarrow> (\<lparr>ref_m0 = 0, ref_dm = 1, ref_intensities = r\<rparr>, h'))"

text \<open>
  \<open>copy\<close>, lines 62 to 67: a new object is constructed, then \<open>i.intensities =
  self.intensities\<close> assigns the reference; no array is copied.
\<close>

definition ref_copy :: "IsotopeDistribution_ref \<Rightarrow> heap \<Rightarrow> IsotopeDistribution_ref \<times> heap" where
  "ref_copy self h =
     (case ref_init h of
        (i, h') \<Rightarrow>
          (i\<lparr>ref_m0 := ref_m0 self, ref_dm := ref_dm self,
             ref_intensities := ref_intensities self\<rparr>, h'))"

text \<open>
  \<open>add\<close>: \<open>fast_add\<close> reads the two arrays and builds its result in arrays of its own
  (\<open>np.zeros\<close>, then the quotient); \<open>self.intensities\<close> is rebound to the new array.
\<close>

definition ref_add ::
  "memory \<Rightarrow> IsotopeDistribution_ref \<Rightarrow> IsotopeDistribution_ref \<Rightarrow> heap
     \<Rightarrow> (error + (IsotopeDistribution_ref \<times> heap)) option" where
  "ref_add mem self x h =
     (case fast_add mem (ref_m0 self) (ref_dm self) (h ! ref_intensities self)
             (ref_m0 x) (ref_dm x) (h ! ref_intensities x) PRUNE_LEVEL_default of
        None \<Rightarrow> None
      | Some (Inl e) \<Rightarrow> Some (Inl e)
      | Some (Inr (m, d, a)) \<Rightarrow>
          (case new_array a h of
             (r, h') \<Rightarrow>
               Some (Inr (self\<lparr>ref_m0 := m, ref_dm := int32_wrap d, ref_intensities := r\<rparr>, h'))))"

text \<open>The value an object stands for in a store.\<close>

definition deref :: "heap \<Rightarrow> IsotopeDistribution_ref \<Rightarrow> IsotopeDistribution" where
  "deref h obj = \<lparr>m0 = ref_m0 obj, dm = ref_dm obj, intensities = h ! ref_intensities obj\<rparr>"

text \<open>
  An assignment \<open>obj.intensities[k] = v\<close> by a caller writes into the array the object
  refers to.
\<close>

definition ref_setitem :: "IsotopeDistribution_ref \<Rightarrow> nat \<Rightarrow> float64 \<Rightarrow> heap \<Rightarrow> heap" where
  "ref_setitem obj k v h = h[ref_intensities obj := (h ! ref_intensities obj)[k := v]]"

subsection \<open>Notions used to state the properties\<close>



text \<open>
  The normalization invariant: \<open>max(intensities[:dm]) == 1.0\<close>, on a prefix that exists
  (\<open>1 \<le> dm \<le> len(intensities)\<close>).
\<close>

definition normalized :: "IsotopeDistribution \<Rightarrow> bool" where
  "normalized e \<longleftrightarrow>
     1 \<le> dm e \<and> nat (dm e) \<le> length (intensities e) \<and>
     np_max (take (nat (dm e)) (intensities e)) = Inr (Finite 1)"

text \<open>
  The monoisotopic mass of a composition: the sum of \<open>count * isotopes[element].m0\<close>
  over its entries.
\<close>

fun formula_mass :: "(string \<rightharpoonup> IsotopeDistribution) \<Rightarrow> (string \<times> int) list \<Rightarrow> real" where
  "formula_mass isotopes [] = 0"
| "formula_mass isotopes ((AA, c) # rest) =
     (case isotopes AA of None \<Rightarrow> 0 | Some el \<Rightarrow> of_int c * m0 el)
       + formula_mass isotopes rest"

section \<open>Properties\<close>

text \<open>The loop of \<open>numba_bin\<close> is unfolded by hand where needed, not by the simplifier.\<close>

declare numba_bin_loop.simps [simp del]

subsection \<open>Indices and the pruning loop\<close>

text \<open>Inside the two loops the index \<open>i + j\<close> is an index of \<open>ni\<close>.\<close>

lemma convolve_index_in_range:
  "np_zeros (dm0 + dm1 - 1) = Inr z \<Longrightarrow> i \<in> set (py_range dm0) \<Longrightarrow> j \<in> set (py_range dm1) \<Longrightarrow>
   i + j < length z"
  by (auto simp: np_zeros_def py_range_def split: if_splits)

text \<open>The pruning loop only counts down.\<close>

lemma prune_loop_le:
  assumes "prune_loop mem ni dm0 P = Some d"
  shows "d \<le> dm0"
proof (rule prune_loop.raw_induct [where P = "\<lambda>mem ni dm0 P d. d \<le> dm0", OF _ assms])
  fix loop :: "memory \<Rightarrow> float64 list \<Rightarrow> int \<Rightarrow> real \<Rightarrow> int option"
    and mem ni dm0 P d
  assume IH: "\<And>mem ni dm0 P d. loop mem ni dm0 P = Some d \<Longrightarrow> d \<le> dm0"
    and step: "(if flt (getitem mem ni (dm0 - 1)) P then loop mem ni (dm0 - 1) P else Some dm0)
                 = Some d"
  show "d \<le> dm0"
  proof (cases "flt (getitem mem ni (dm0 - 1)) P")
    case True
    with step have "loop mem ni (dm0 - 1) P = Some d" by simp
    from IH [OF this] show ?thesis by simp
  next
    case False
    with step show ?thesis by simp
  qed
qed

text \<open>
  When an entry below \<open>dm0\<close> is not below the threshold, the loop returns without
  leaving the array, whatever the memory holds.
\<close>

lemma prune_loop_stops_in_range:
  assumes "k < length ni" and "\<not> flt (ni ! k) P"
  shows "int k < dm0 \<Longrightarrow> dm0 \<le> int (length ni) \<Longrightarrow>
         \<exists>d. prune_loop mem ni dm0 P = Some d \<and> int k < d \<and> d \<le> dm0 \<and>
             \<not> flt (ni ! nat (d - 1)) P"
proof (induction "nat (dm0 - 1 - int k)" arbitrary: dm0)
  case 0
  then have "nat (dm0 - 1) = k" by linarith
  with 0 assms have "\<not> flt (getitem mem ni (dm0 - 1)) P" "\<not> flt (ni ! nat (dm0 - 1)) P"
    by (simp_all add: getitem_def)
  with 0 show ?case
    by (subst prune_loop.simps) simp
next
  case (Suc n)
  then have g: "getitem mem ni (dm0 - 1) = ni ! nat (dm0 - 1)"
    by (simp add: getitem_def)
  show ?case
  proof (cases "flt (ni ! nat (dm0 - 1)) P")
    case True
    from Suc have "n = nat (dm0 - 1 - 1 - int k)" "int k < dm0 - 1" "dm0 - 1 \<le> int (length ni)"
      by linarith+
    from Suc.hyps(1) [OF this] obtain d where
      "prune_loop mem ni (dm0 - 1) P = Some d" "int k < d" "d \<le> dm0 - 1"
      "\<not> flt (ni ! nat (d - 1)) P"
      by blast
    with g True show ?thesis
      by (subst prune_loop.simps) simp
  next
    case False
    with g Suc.prems show ?thesis
      by (subst prune_loop.simps) simp
  qed
qed

subsection \<open>\<open>mult\<close> at 0\<close>

lemma numba_bin_zero: "numba_bin 0 = []"
  by (simp add: numba_bin_def numba_bin_loop.simps)

lemma add_init_init:
  "add mem IsotopeDistribution_init IsotopeDistribution_init = Some (Inr IsotopeDistribution_init)"
  by (simp add: add_def fast_add_def convolve_def np_zeros_def py_range_def getitem_def
      np_max_def prune_loop.simps int32_wrap_def IsotopeDistribution_init_def
      PRUNE_LEVEL_default_def)

text \<open>
  C10. \<open>numba_bin(0)\<close> is the empty list, so \<open>E.mult(0)\<close> leaves the loop at once and
  returns the accumulator as constructed: offset 0, one peak, intensities \<open>[1.0]\<close>, for
  every \<open>E\<close>. In \<open>dict_to_dist\<close> an element with count 0 whose table entry convolves
  therefore contributes the identity: the running total is convolved with the identity
  and the loop goes on; a composition made of that element alone gives the identity.
\<close>

theorem mult_zero_identity:
  "mult mem E 0 = Some (Inr IsotopeDistribution_init) \<and>
   (isotopes AA = Some el \<and> add mem IsotopeDistribution_init el = Some (Inr x) \<longrightarrow>
      dict_to_dist_loop mem isotopes distr ((AA, 0) # rest) =
        (case add mem distr IsotopeDistribution_init of
           None \<Rightarrow> None
         | Some (Inl e) \<Rightarrow> Some (Inl e)
         | Some (Inr distr') \<Rightarrow> dict_to_dist_loop mem isotopes distr' rest) \<and>
      dict_to_dist mem [(AA, 0)] isotopes = Some (Inr IsotopeDistribution_init))"
  by (simp add: mult_def numba_bin_zero dict_to_dist_def add_init_init)

theorem mult_zero_identity_witness:
  "mult memory_of_ones \<lparr>m0 = 12, dm = 2, intensities = [Finite 1, Finite (1 / 100)]\<rparr> 0
     = Some (Inr IsotopeDistribution_init) \<and>
   dict_to_dist memory_of_ones [(''C'', 0)]
     (map_of [(''C'', \<lparr>m0 = 12, dm = 2, intensities = [Finite 1, Finite (1 / 100)]\<rparr>)])
     = Some (Inr IsotopeDistribution_init)"
proof -
  let ?C = "\<lparr>m0 = 12, dm = 2, intensities = [Finite 1, Finite (1 / 100)]\<rparr>"
  have a: "map_of [(''C'', ?C)] ''C'' = Some ?C"
    by simp
  have b: "add memory_of_ones IsotopeDistribution_init ?C = Some (Inr ?C)"
    by code_simp
  show ?thesis
    using mult_zero_identity [of memory_of_ones ?C "map_of [(''C'', ?C)]" "''C''" ?C ?C
        IsotopeDistribution_init "[]"] a b
    by simp
qed

subsection \<open>What the pruning loop compares\<close>

text \<open>
  C1. The claim is that pruning discards trailing entries whose normalized intensity is
  below the threshold. The loop compares the raw entry \<open>ni[dm0 - 1]\<close>. For the patterns
  \<open>[1, 1]\<close> and \<open>[1, 1, 1.5e-6]\<close> the raw convolution is \<open>[1, 2, 1.0000015, 1.5e-6]\<close>
  with maximum 2: the last entry is \<open>7.5e-7\<close> after normalization, below the threshold,
  and is kept all the same, the returned peak count being 4 where the claim gives 3.
\<close>

theorem fast_add_prunes_on_raw_values:
  "fast_add mem 0 2 [Finite 1, Finite 1] 0 3 [Finite 1, Finite 1, Finite (3 / 2000000)]
     PRUNE_LEVEL_default
     = Some (Inr (0, 4, [Finite (1 / 2), Finite 1, Finite (2000003 / 4000000),
                         Finite (3 / 4000000)])) \<and>
   (3 / 4000000 :: real) < PRUNE_LEVEL_default"
  by (simp add: fast_add_def convolve_def np_zeros_def py_range_def getitem_def
      np_max_def prune_loop.simps PRUNE_LEVEL_default_def upt_conv_Cons numeral_eq_Suc)

subsection \<open>\<open>calculate_mass\<close>\<close>





subsection \<open>The mode without sulphur\<close>

text \<open>
  C8. With \<open>sulphur=False\<close> the estimator raises \<open>NotImplementedError\<close> before anything
  else is computed, whatever the mass and the tables: no composition is returned.
\<close>

theorem sulphur_free_not_implemented:
  "get_average_formula averagine_avg molecule_mass averagine_aa isotopes False
     = Inl NotImplementedError"
  by (simp add: get_average_formula_def)

subsection \<open>\<open>copy\<close> and storage\<close>

text \<open>
  \<open>add\<close> puts its result in a new array and leaves every existing array as it was, so
  no operation of the module writes into storage that two objects share. On values it is
  the \<open>add\<close> defined above.
\<close>

lemma ref_add_fresh:
  "ref_add mem self x h = Some (Inr (r, h')) \<Longrightarrow>
   ref_intensities r = length h \<and> take (length h) h' = h \<and>
   add mem (deref h self) (deref h x) = Some (Inr (deref h' r))"
  by (auto simp: ref_add_def add_def deref_def new_array_def split: option.splits sum.splits)

text \<open>
  C5, as the code has it. \<open>copy\<close> returns an object with the offset and the peak count of
  \<open>self\<close> and with the reference of \<open>self\<close> to its intensities: the two objects share
  one array. The arrays that existed before are untouched, and the copy stands for the
  same value as \<open>self\<close>.
\<close>

theorem copy_shares_buffer:
  "ref_intensities self < length h \<Longrightarrow>
     (case ref_copy self h of
        (c, h') \<Rightarrow>
          ref_m0 c = ref_m0 self \<and> ref_dm c = ref_dm self \<and>
          ref_intensities c = ref_intensities self \<and>
          take (length h) h' = h \<and>
          deref h' c = copy (deref h self))"
  by (simp add: ref_copy_def ref_init_def new_array_def deref_def copy_def
        IsotopeDistribution_init_def nth_append)

theorem copy_shares_buffer_witness:
  "(case ref_copy \<lparr>ref_m0 = 12, ref_dm = 2, ref_intensities = 0\<rparr> [[Finite 1, Finite (1 / 100)]] of
      (c, h') \<Rightarrow>
        ref_intensities c = 0 \<and>
        deref h' c = \<lparr>m0 = 12, dm = 2, intensities = [Finite 1, Finite (1 / 100)]\<rparr>)"
  using copy_shares_buffer [of "\<lparr>ref_m0 = 12, ref_dm = 2, ref_intensities = 0\<rparr>"
      "[[Finite 1, Finite (1 / 100)]]"]
  by (auto simp: deref_def copy_def IsotopeDistribution_init_def split: prod.splits)

text \<open>
  C5, as stated, fails: the copy of an object whose array is at address 0 has its array
  at address 0, and a value written through the copy is read through the original.
\<close>

theorem copy_aliases_counterexample:
  "(case ref_copy \<lparr>ref_m0 = 12, ref_dm = 2, ref_intensities = 0\<rparr> [[Finite 1, Finite (1 / 100)]] of
      (c, h') \<Rightarrow>
        ref_intensities c = ref_intensities \<lparr>ref_m0 = 12, ref_dm = 2, ref_intensities = 0\<rparr> \<and>
        intensities (deref (ref_setitem c 1 (Finite 5) h')
                       \<lparr>ref_m0 = 12, ref_dm = 2, ref_intensities = 0\<rparr>)
          = [Finite 1, Finite 5])"
  by (simp add: ref_copy_def ref_init_def new_array_def deref_def ref_setitem_def)

subsection \<open>A convolution with nothing at or above the threshold\<close>

text \<open>
  On a raw convolution of one entry below the threshold the loop takes the peak count
  from 1 to 0, where index \<open>-1\<close> reads the same entry again, and on to \<open>-1\<close>, where it
  starts reading the memory in front of the array.
\<close>

lemma prune_loop_single_below:
  "flt v P \<Longrightarrow> prune_loop mem [v] 1 P = prune_loop mem [v] (- 1) P"
  by (subst prune_loop.simps, simp add: getitem_def, subst prune_loop.simps,
      simp add: getitem_def)

text \<open>
  C4. The claim is that a convolution with no entry at or above the threshold surfaces
  an error, instead of a division by the maximum and a peak count below any valid
  bound. \<open>fast_add\<close> has no such check. For the patterns \<open>[0.0]\<close> and \<open>[1.0]\<close> the raw
  convolution is \<open>[0.0]\<close> with maximum 0. Whatever the memory holds, no error is raised:
  either the loop does not return, or \<open>fast_add\<close> returns a peak count of \<open>-1\<close> or less
  together with the intensities \<open>[nan]\<close>. With \<open>1.0\<close> in front of the array it returns
  the peak count \<open>-1\<close>.
\<close>

theorem fast_add_degenerate_returns_invalid:
  "(case fast_add mem 0 1 [Finite 0] 0 1 [Finite 1] PRUNE_LEVEL_default of
      None \<Rightarrow> True
    | Some (Inl e) \<Rightarrow> False
    | Some (Inr (m, d, a)) \<Rightarrow> d \<le> - 1 \<and> a = [NaN]) \<and>
   fast_add memory_of_ones 0 1 [Finite 0] 0 1 [Finite 1] PRUNE_LEVEL_default
     = Some (Inr (0, - 1, [NaN]))"
proof
  have c: "convolve mem 1 [Finite 0] 1 [Finite 1] = Inr [Finite 0]"
    by (simp add: convolve_def np_zeros_def py_range_def getitem_def)
  have p: "prune_loop mem [Finite 0] 1 PRUNE_LEVEL_default
             = prune_loop mem [Finite 0] (- 1) PRUNE_LEVEL_default"
    by (rule prune_loop_single_below) (simp add: PRUNE_LEVEL_default_def)
  have le: "d \<le> - 1" if "prune_loop mem [Finite 0] 1 PRUNE_LEVEL_default = Some d" for d
    using that unfolding p by (rule prune_loop_le)
  show "case fast_add mem 0 1 [Finite 0] 0 1 [Finite 1] PRUNE_LEVEL_default of
      None \<Rightarrow> True
    | Some (Inl e) \<Rightarrow> False
    | Some (Inr (m, d, a)) \<Rightarrow> d \<le> - 1 \<and> a = [NaN]"
    using le by (simp add: fast_add_def c np_max_def split: option.splits)
  show "fast_add memory_of_ones 0 1 [Finite 0] 0 1 [Finite 1] PRUNE_LEVEL_default
     = Some (Inr (0, - 1, [NaN]))"
    by code_simp
qed

subsection \<open>The normalization invariant\<close>

text \<open>
  C6. The claim is that after every convolution the maximum of the first \<open>dm\<close>
  intensities is 1. Convolving the identity with the single peak \<open>[1e-7]\<close> gives the
  raw convolution \<open>[1e-7]\<close>, below the threshold. Whatever the memory holds, \<open>fast_add\<close>
  then raises nothing: it returns, if it returns, the intensities \<open>[1.0]\<close> with a peak
  count of \<open>-1\<close> or less. With \<open>1.0\<close> in front of the array, \<open>add\<close> leaves the envelope
  with peak count \<open>-1\<close>, which has no first \<open>dm\<close> entries: the invariant does not hold.
\<close>

theorem add_below_threshold_not_normalized:
  "(case fast_add mem 0 1 [Finite 1] 0 1 [Finite (1 / 10000000)] PRUNE_LEVEL_default of
      None \<Rightarrow> True
    | Some (Inl e) \<Rightarrow> False
    | Some (Inr (m, d, a)) \<Rightarrow> d \<le> - 1 \<and> a = [Finite 1]) \<and>
   add memory_of_ones IsotopeDistribution_init
       \<lparr>m0 = 0, dm = 1, intensities = [Finite (1 / 10000000)]\<rparr>
     = Some (Inr \<lparr>m0 = 0, dm = - 1, intensities = [Finite 1]\<rparr>) \<and>
   \<not> normalized \<lparr>m0 = 0, dm = - 1, intensities = [Finite 1]\<rparr>"
proof (intro conjI)
  have c: "convolve mem 1 [Finite 1] 1 [Finite (1 / 10000000)] = Inr [Finite (1 / 10000000)]"
    by (simp add: convolve_def np_zeros_def py_range_def getitem_def)
  have p: "prune_loop mem [Finite (1 / 10000000)] 1 PRUNE_LEVEL_default
             = prune_loop mem [Finite (1 / 10000000)] (- 1) PRUNE_LEVEL_default"
    by (rule prune_loop_single_below) (simp add: PRUNE_LEVEL_default_def)
  have le: "d \<le> - 1" if "prune_loop mem [Finite (1 / 10000000)] 1 PRUNE_LEVEL_default = Some d" for d
    using that unfolding p by (rule prune_loop_le)
  show "case fast_add mem 0 1 [Finite 1] 0 1 [Finite (1 / 10000000)] PRUNE_LEVEL_default of
      None \<Rightarrow> True
    | Some (Inl e) \<Rightarrow> False
    | Some (Inr (m, d, a)) \<Rightarrow> d \<le> - 1 \<and> a = [Finite 1]"
    using le by (simp add: fast_add_def c np_max_def split: option.splits)
  show "add memory_of_ones IsotopeDistribution_init
       \<lparr>m0 = 0, dm = 1, intensities = [Finite (1 / 10000000)]\<rparr>
     = Some (Inr \<lparr>m0 = 0, dm = - 1, intensities = [Finite 1]\<rparr>)"
    by code_simp
  show "\<not> normalized \<lparr>m0 = 0, dm = - 1, intensities = [Finite 1]\<rparr>"
    by (simp add: normalized_def)
qed

subsection \<open>\<open>mult\<close> against repeated \<open>add\<close>\<close>


subsection \<open>The averagine estimate\<close>

text \<open>
  While the keys of \<open>averagine_aa\<close> are distinct, each one is new to \<open>counted_AA\<close> and is
  appended, and \<open>final_mass\<close> is the mass of the composition built so far.
\<close>

lemma dict_set_fresh: "k \<notin> fst ` set al \<Longrightarrow> dict_set k v al = al @ [(k, v)]"
  by (induction al) auto

lemma formula_mass_append:
  "formula_mass isotopes (xs @ ys) = formula_mass isotopes xs + formula_mass isotopes ys"
  by (induction xs) (auto split: option.splits)

lemma formula_mass_dict_set:
  "map_of al k = Some old \<Longrightarrow> isotopes k = Some el \<Longrightarrow>
   formula_mass isotopes (dict_set k v al)
     = formula_mass isotopes al + of_int (v - old) * m0 el"
  by (induction al) (auto simp: algebra_simps split: option.splits)

lemma averagine_loop_mass:
  "averagine_loop u isotopes aa counted fm = Inr (counted', fm') \<Longrightarrow>
   distinct (map fst aa) \<Longrightarrow> fst ` set counted \<inter> fst ` set aa = {} \<Longrightarrow>
   fm' - formula_mass isotopes counted' = fm - formula_mass isotopes counted"
proof (induction aa arbitrary: counted fm)
  case Nil
  then show ?case by simp
next
  case (Cons p rest)
  obtain AA ratio where p: "p = (AA, ratio)" by (cases p)
  define c where "c = np_round (u * ratio)"
  from Cons.prems(1) obtain el where el: "isotopes AA = Some el" and
    l: "averagine_loop u isotopes rest (dict_set AA c counted) (fm + of_int c * m0 el)
          = Inr (counted', fm')"
    unfolding p c_def by (auto simp: Let_def split: option.splits)
  from Cons.prems(3) have fresh: "AA \<notin> fst ` set counted"
    unfolding p by auto
  then have ds: "dict_set AA c counted = counted @ [(AA, c)]"
    by (rule dict_set_fresh)
  from Cons.prems(2) have d: "distinct (map fst rest)" and nin: "AA \<notin> fst ` set rest"
    unfolding p by auto
  from Cons.prems(3) nin have disj: "fst ` set (dict_set AA c counted) \<inter> fst ` set rest = {}"
    unfolding ds p by auto
  from Cons.IH [OF l d disj] show ?case
    by (simp add: ds formula_mass_append el)
qed

text \<open>
  The estimator returns a composition when \<open>averagine_avg\<close> and the mass of hydrogen are
  not 0, every element of the ratio table has an isotope entry and hydrogen is among
  them.
\<close>

lemma dict_set_keys: "fst ` set (dict_set k v al) = insert k (fst ` set al)"
proof (induction al)
  case Nil
  show ?case by simp
next
  case (Cons p al)
  obtain k' v' where p: "p = (k', v')" by (cases p)
  show ?case
  proof (cases "k = k'")
    case True
    then show ?thesis by (simp add: p)
  next
    case False
    with Cons.IH show ?thesis by (simp add: p insert_commute)
  qed
qed

lemma averagine_loop_returns:
  "\<forall>k \<in> fst ` set aa. isotopes k \<noteq> None \<Longrightarrow>
   \<exists>counted' fm'. averagine_loop u isotopes aa counted fm = Inr (counted', fm') \<and>
      fst ` set counted' = fst ` set counted \<union> fst ` set aa"
proof (induction aa arbitrary: counted fm)
  case Nil
  then show ?case by simp
next
  case (Cons p rest)
  obtain AA ratio where p: "p = (AA, ratio)" by (cases p)
  from Cons.prems obtain el where el: "isotopes AA = Some el"
    unfolding p by auto
  from Cons.prems have "\<forall>k \<in> fst ` set rest. isotopes k \<noteq> None" by simp
  from Cons.IH [OF this, of "dict_set AA (np_round (u * ratio)) counted"
      "fm + of_int (np_round (u * ratio)) * m0 el"]
  show ?case
    unfolding p by (auto simp: Let_def el dict_set_keys)
qed

lemma get_average_formula_returns:
  assumes "averagine_avg \<noteq> 0" and "\<forall>k \<in> fst ` set averagine_aa. isotopes k \<noteq> None"
    and "''H'' \<in> fst ` set averagine_aa" and "isotopes ''H'' = Some h" and "m0 h \<noteq> 0"
  shows "\<exists>counted_AA.
           get_average_formula averagine_avg molecule_mass averagine_aa isotopes True
             = Inr counted_AA"
proof -
  from averagine_loop_returns [OF assms(2), of "molecule_mass / averagine_avg" "[]" 0]
  obtain counted fm where
    l: "averagine_loop (molecule_mass / averagine_avg) isotopes averagine_aa [] 0
          = Inr (counted, fm)" and
    k: "fst ` set counted = fst ` set averagine_aa"
    by auto
  from k assms(3) have "''H'' \<in> fst ` set counted" by simp
  then obtain c where "map_of counted ''H'' = Some c"
    by (metis domD dom_map_of_conv_image_fst)
  with l assms show ?thesis
    by (simp add: get_average_formula_def py_div_def Let_def)
qed

text \<open>Rounding moves a number by at most one half.\<close>

lemma np_round_error: "\<bar>x - of_int (np_round x)\<bar> \<le> 1 / 2"
proof -
  have "of_int \<lfloor>x\<rfloor> \<le> x" "x < of_int \<lfloor>x\<rfloor> + 1" by linarith+
  then show ?thesis
    by (auto simp: np_round_def Let_def)
qed

lemma averagine_mass_half:
  assumes g: "get_average_formula averagine_avg molecule_mass averagine_aa isotopes True
                = Inr counted_AA"
    and d: "distinct (map fst averagine_aa)"
    and h: "isotopes ''H'' = Some h" and pos: "0 < m0 h"
  shows "\<bar>formula_mass isotopes counted_AA - molecule_mass\<bar> \<le> m0 h / 2"
proof -
  from g h obtain u counted fm c where
    l: "averagine_loop u isotopes averagine_aa [] 0 = Inr (counted, fm)" and
    c: "map_of counted ''H'' = Some c" and
    r: "counted_AA = dict_set ''H'' (c + np_round ((molecule_mass - fm) / m0 h)) counted"
    by (auto simp: get_average_formula_def py_div_def Let_def
        split: sum.splits option.splits if_splits)
  define q where "q = (molecule_mass - fm) / m0 h"
  from averagine_loop_mass [OF l d] have fm: "fm = formula_mass isotopes counted"
    by simp
  from formula_mass_dict_set [where al = counted and k = "''H''" and old = c
      and isotopes = isotopes and el = h] c h r
  have "formula_mass isotopes counted_AA = fm + of_int (np_round q) * m0 h"
    by (simp add: fm q_def)
  moreover from pos have "molecule_mass - fm = q * m0 h"
    by (simp add: q_def)
  ultimately have "formula_mass isotopes counted_AA - molecule_mass
      = - ((q - of_int (np_round q)) * m0 h)"
    by (simp add: algebra_simps)
  then have "\<bar>formula_mass isotopes counted_AA - molecule_mass\<bar>
      = \<bar>q - of_int (np_round q)\<bar> * m0 h"
    using pos by (simp add: abs_mult)
  also have "\<dots> \<le> 1 / 2 * m0 h"
    using np_round_error [of q] pos by (intro mult_right_mono) simp_all
  finally show ?thesis by simp
qed

text \<open>
  C7. With sulphur included, the composition returned by \<open>get_average_formula\<close>
  conserves mass up to one hydrogen: the sum of \<open>count * isotopes[element].m0\<close> over the
  composition, hydrogen correction included, differs from \<open>molecule_mass\<close> by at most
  \<open>isotopes["H"].m0\<close>, for every input mass. The ratio table is a dictionary (distinct
  keys) and the mass of hydrogen is positive.
\<close>

theorem averagine_mass_conservation:
  "get_average_formula averagine_avg molecule_mass averagine_aa isotopes True = Inr counted_AA \<Longrightarrow>
   distinct (map fst averagine_aa) \<Longrightarrow> isotopes ''H'' = Some h \<Longrightarrow> 0 < m0 h \<Longrightarrow>
   \<bar>formula_mass isotopes counted_AA - molecule_mass\<bar> \<le> m0 h"
  using averagine_mass_half [of averagine_avg molecule_mass averagine_aa isotopes counted_AA h]
  by simp

theorem averagine_mass_conservation_witness:
  "get_average_formula 13 1000 [(''C'', 1), (''H'', 1)]
     (map_of [(''H'', \<lparr>m0 = 1007825 / 1000000, dm = 2,
                       intensities = [Finite 1, Finite (1 / 1000)]\<rparr>),
              (''C'', \<lparr>m0 = 12, dm = 2, intensities = [Finite 1, Finite (1 / 100)]\<rparr>)]) True
     = Inr [(''C'', 77), (''H'', 75)] \<and>
   \<bar>formula_mass
      (map_of [(''H'', \<lparr>m0 = 1007825 / 1000000, dm = 2,
                        intensities = [Finite 1, Finite (1 / 1000)]\<rparr>),
               (''C'', \<lparr>m0 = 12, dm = 2, intensities = [Finite 1, Finite (1 / 100)]\<rparr>)])
      [(''C'', 77), (''H'', 75)] - 1000\<bar>
     \<le> m0 \<lparr>m0 = 1007825 / 1000000, dm = 2, intensities = [Finite 1, Finite (1 / 1000)]\<rparr>"
proof -
  let ?H = "\<lparr>m0 = 1007825 / 1000000, dm = 2, intensities = [Finite 1, Finite (1 / 1000)]\<rparr>"
  let ?iso = "map_of [(''H'', ?H),
                      (''C'', \<lparr>m0 = 12, dm = 2, intensities = [Finite 1, Finite (1 / 100)]\<rparr>)]"
  have g: "get_average_formula 13 1000 [(''C'', 1), (''H'', 1)] ?iso True
             = Inr [(''C'', 77), (''H'', 75)]"
    by code_simp
  have d: "distinct (map fst [(''C'', 1 :: real), (''H'', 1)])" by simp
  have h: "?iso ''H'' = Some ?H" by simp
  have pos: "0 < m0 ?H" by simp
  from averagine_mass_conservation [OF g d h pos] g show ?thesis by simp
qed

subsection \<open>\<open>mass_to_dist\<close>\<close>

text \<open>
  C2, as the code has it. \<open>mass_to_dist\<close> returns exactly when the estimator and
  \<open>dict_to_dist\<close> do, and it then returns the whole array \<open>intensities\<close> of the
  distribution and one mass \<open>m0 + i\<close> for every slot \<open>i\<close> of that array, \<open>range(len(
  dist.intensities))\<close>: the two sequences have the length of the storage, whatever the
  peak count \<open>dm\<close> is.
\<close>

theorem mass_to_dist_all_slots:
  "mass_to_dist mem averagine_avg molecule_mass averagine_aa isotopes = Some (Inr (masses, ints))
   \<longleftrightarrow>
   (\<exists>counted_AA distr.
      get_average_formula averagine_avg molecule_mass averagine_aa isotopes True = Inr counted_AA \<and>
      dict_to_dist mem counted_AA isotopes = Some (Inr distr) \<and>
      ints = intensities distr \<and>
      masses = map (\<lambda>i. m0 distr + real i) [0..<length (intensities distr)])"
  by (auto simp: mass_to_dist_def Let_def split: sum.splits option.splits)

theorem mass_to_dist_all_slots_witness:
  "\<exists>counted_AA distr.
     get_average_formula 1 2 [(''H'', 1)]
       (map_of [(''H'', \<lparr>m0 = 1, dm = 2, intensities = [Finite 1, Finite (1 / 1000)]\<rparr>)]) True
       = Inr counted_AA \<and>
     dict_to_dist memory_of_ones counted_AA
       (map_of [(''H'', \<lparr>m0 = 1, dm = 2, intensities = [Finite 1, Finite (1 / 1000)]\<rparr>)])
       = Some (Inr distr) \<and>
     [Finite 1, Finite (1 / 500), Finite (1 / 1000000)] = intensities distr \<and>
     [2, 3, 4] = map (\<lambda>i. m0 distr + real i) [0..<length (intensities distr)]"
proof -
  have m: "mass_to_dist memory_of_ones 1 2 [(''H'', 1)]
             (map_of [(''H'', \<lparr>m0 = 1, dm = 2, intensities = [Finite 1, Finite (1 / 1000)]\<rparr>)])
             = Some (Inr ([2, 3, 4], [Finite 1, Finite (1 / 500), Finite (1 / 1000000)]))"
    by code_simp
  from mass_to_dist_all_slots [THEN iffD1, OF m] show ?thesis .
qed

text \<open>
  C2, as stated, fails. With one hydrogen \<open>[1, 1e-3]\<close> and one carbon \<open>[1, 5e-4]\<close> the
  last convolution is \<open>[1, 1.5e-3, 5e-7]\<close>, pruned to a peak count of 2 in an array of
  length 3; \<open>mass_to_dist\<close> returns three masses, the third for a slot beyond the peak
  count.
\<close>

theorem mass_to_dist_beyond_peak_count_counterexample:
  "dict_to_dist memory_of_ones [(''H'', 1), (''C'', 1)]
     (map_of [(''H'', \<lparr>m0 = 1, dm = 2, intensities = [Finite 1, Finite (1 / 1000)]\<rparr>),
              (''C'', \<lparr>m0 = 12, dm = 2, intensities = [Finite 1, Finite (1 / 2000)]\<rparr>)])
     = Some (Inr \<lparr>m0 = 13, dm = 2,
                  intensities = [Finite 1, Finite (3 / 2000), Finite (1 / 2000000)]\<rparr>) \<and>
   mass_to_dist memory_of_ones 13 13 [(''H'', 1), (''C'', 1)]
     (map_of [(''H'', \<lparr>m0 = 1, dm = 2, intensities = [Finite 1, Finite (1 / 1000)]\<rparr>),
              (''C'', \<lparr>m0 = 12, dm = 2, intensities = [Finite 1, Finite (1 / 2000)]\<rparr>)])
     = Some (Inr ([13, 14, 15], [Finite 1, Finite (3 / 2000), Finite (1 / 2000000)]))"
  by code_simp

end
